theory Spec2Isabelle
  imports Main
begin

section \<open>Outbound messages (the JSON bodies handed to callSendAPI)\<close>

text \<open>
  The repository holds several snapshots of one Express application. A function whose
  text differs between the snapshots carries a suffix naming the file it is taken from:
  \<open>_app\<close> for the first program of src/node/app.js, \<open>_p0\<close> for src/unnamed/part_000,
  \<open>_p1\<close> for src/unnamed/part_001 and \<open>_p2\<close> for src/unnamed/part_002; the comment
  above each definition gives the files and lines.

  JavaScript object literals become records. A property that a message may lack is an
  \<open>option\<close>: \<open>None\<close> is "the key is not in the object" (after \<open>delete\<close> as well),
  \<open>Some ''''\<close> is "the key is there and holds the empty string".
\<close>

record quick_reply =
  content_type :: string
  title :: string
  payload :: string

record button =
  button_type :: string
  button_title :: string
  button_payload :: string

record template_element =
  element_title :: string
  subtitle :: string
  image_url :: string
  buttons :: "button list"

text \<open>
  The \<open>payload\<close> property of an attachment holds, in the code, either a plain string
  (the linear responder starts from \<open>""\<close>), an object \<open>{url: ...}\<close>, or an object
  \<open>{template_type: ..., elements: [...]}\<close>.
\<close>

datatype attachment_payload =
    PayloadString string
  | PayloadUrl string
  | PayloadTemplate string "template_element list"

record attachment =
  attachment_type :: string
  attachment_payload :: attachment_payload

record message =
  message_text :: "string option"
  metadata :: "string option"
  quick_replies :: "quick_reply list option"
  message_attachment :: "attachment option"

record messageData =
  recipient_id :: string
  message :: message

text \<open>
  What a handler does to the outside world, in program order: lines written with
  \<open>console.log\<close> (the format string only, its arguments are not modelled) and
  \<open>console.error\<close>, requests issued through \<open>callSendAPI\<close> (the Send Gateway; its
  asynchronous completion callback is outside the model), and the status code written by
  \<open>res.sendStatus\<close>.
\<close>

datatype effect =
    ConsoleLog string
  | ConsoleError string
  | CallSendAPI messageData
  | SendStatus nat

text \<open>
  An exception that leaves a function: \<open>throw new Error(msg)\<close>, or the
  \<open>ReferenceError\<close> the engine raises when an identifier that no declaration binds is
  evaluated (its message is "<name> is not defined"). A function that may throw returns
  \<open>js_error + 'a\<close>, with \<open>Inl\<close> the exception.
\<close>

datatype js_error = Error string | ReferenceError string

text \<open>The module-level constants read from config/default.json.\<close>

record config =
  APP_SECRET :: string
  VALIDATION_TOKEN :: string
  PAGE_ACCESS_TOKEN :: string
  SERVER_URL :: string

definition IMG_BASE_PATH :: "config \<Rightarrow> string" where
  "IMG_BASE_PATH cfg = ''https://'' @ SERVER_URL cfg @ ''/assets/screenshots/''"

definition empty_message :: message where
  "empty_message =
     \<lparr>message_text = None, metadata = None, quick_replies = None, message_attachment = None\<rparr>"

text \<open>Reading a trace: the messages sent, and the cards of the carousels among them.\<close>

fun sent :: "effect list \<Rightarrow> messageData list" where
  "sent [] = []"
| "sent (CallSendAPI m # es) = m # sent es"
| "sent (e # es) = sent es"

fun cards_of :: "messageData \<Rightarrow> template_element list option" where
  "cards_of m =
     (case message_attachment (message m) of
        None \<Rightarrow> None
      | Some a \<Rightarrow>
          (case attachment_payload a of
             PayloadTemplate k els \<Rightarrow>
               if attachment_type a = ''template'' \<and> k = ''generic'' then Some els else None
           | _ \<Rightarrow> None))"

text \<open>The messages sent by a function that may throw: none when it threw at once.\<close>

definition sent_result :: "js_error + effect list \<Rightarrow> messageData list" where
  "sent_result r = (case r of Inl e \<Rightarrow> [] | Inr es \<Rightarrow> sent es)"

section \<open>Branching mode: respondToHelpRequestWithTemplates\<close>

subsection \<open>part_002 (lines 219-378) and part_000 (lines 274-433), the same text\<close>

definition addSectionButton :: "button list \<Rightarrow> string \<Rightarrow> string \<Rightarrow> button list" where
  "addSectionButton sectionButtons t p =
     sectionButtons @ [\<lparr>button_type = ''postback'', button_title = t, button_payload = p\<rparr>]"

definition card :: "string \<Rightarrow> string \<Rightarrow> string \<Rightarrow> button list \<Rightarrow> template_element" where
  "card t s u bs = \<lparr>element_title = t, subtitle = s, image_url = u, buttons = bs\<rparr>"

text \<open>
  The \<open>switch\<close> of the function: the pair (sectionButtons, templateElements) it leaves
  behind. There is no \<open>default\<close> label, so any other string leaves both arrays empty.
\<close>

definition templates_switch :: "config \<Rightarrow> string \<Rightarrow> button list \<times> template_element list" where
  "templates_switch cfg requestForHelpOnFeature =
    (if requestForHelpOnFeature = ''QR_ROTATION_1'' then
       (let sectionButtons = addSectionButton [] ''Photo'' ''QR_PHOTO_1'';
            sectionButtons = addSectionButton sectionButtons ''Caption'' ''QR_CAPTION_1'';
            sectionButtons = addSectionButton sectionButtons ''Background'' ''QR_BACKGROUND_1''
        in (sectionButtons,
            [card ''Rotation'' ''portrait mode''
               (IMG_BASE_PATH cfg @ ''01-rotate-landscape.png'') sectionButtons,
             card ''Rotation'' ''landscape mode''
               (IMG_BASE_PATH cfg @ ''02-rotate-portrait.png'') sectionButtons]))
     else if requestForHelpOnFeature = ''QR_PHOTO_1'' then
       (let sectionButtons = addSectionButton [] ''Rotation'' ''QR_ROTATION_1'';
            sectionButtons = addSectionButton sectionButtons ''Caption'' ''QR_CAPTION_1'';
            sectionButtons = addSectionButton sectionButtons ''Background'' ''QR_BACKGROUND_1''
        in (sectionButtons,
            [card ''Photo Picker'' ''click to start''
               (IMG_BASE_PATH cfg @ ''03-photo-hover.png'') sectionButtons,
             card ''Photo Picker'' ''Downloads folder''
               (IMG_BASE_PATH cfg @ ''04-photo-list.png'') sectionButtons,
             card ''Photo Picker'' ''photo selected''
               (IMG_BASE_PATH cfg @ ''05-photo-selected.png'') sectionButtons]))
     else if requestForHelpOnFeature = ''QR_CAPTION_1'' then
       (let sectionButtons = addSectionButton [] ''Rotation'' ''QR_ROTATION_1'';
            sectionButtons = addSectionButton sectionButtons ''Photo'' ''QR_PHOTO_1'';
            sectionButtons = addSectionButton sectionButtons ''Background'' ''QR_BACKGROUND_1''
        in (sectionButtons,
            [card ''Caption'' ''click to start''
               (IMG_BASE_PATH cfg @ ''06-text-hover.png'') sectionButtons,
             card ''Caption'' ''enter text''
               (IMG_BASE_PATH cfg @ ''07-text-mid-entry.png'') sectionButtons,
             card ''Caption'' ''click OK''
               (IMG_BASE_PATH cfg @ ''08-text-entry-done.png'') sectionButtons,
             card ''Caption'' ''Caption done''
               (IMG_BASE_PATH cfg @ ''09-text-complete.png'') sectionButtons]))
     else if requestForHelpOnFeature = ''QR_BACKGROUND_1'' then
       (let sectionButtons = addSectionButton [] ''Rotation'' ''QR_ROTATION_1'';
            sectionButtons = addSectionButton sectionButtons ''Photo'' ''QR_PHOTO_1'';
            sectionButtons = addSectionButton sectionButtons ''Caption'' ''QR_CAPTION_1''
        in (sectionButtons,
            [card ''Background Color Picker'' ''click to start''
               (IMG_BASE_PATH cfg @ ''10-background-picker-hover.png'') sectionButtons,
             card ''Background Color Picker'' ''click current color''
               (IMG_BASE_PATH cfg @ ''11-background-picker-appears.png'') sectionButtons,
             card ''Background Color Picker'' ''select new color''
               (IMG_BASE_PATH cfg @ ''12-background-picker-selection.png'') sectionButtons,
             card ''Background Color Picker'' ''click ok''
               (IMG_BASE_PATH cfg @ ''13-background-picker-selection-made.png'') sectionButtons,
             card ''Background Color Picker'' ''color is applied''
               (IMG_BASE_PATH cfg @ ''14-background-changed.png'') sectionButtons]))
     else ([], []))"

definition generic_template :: "string \<Rightarrow> template_element list \<Rightarrow> messageData" where
  "generic_template recipientId templateElements =
     \<lparr>recipient_id = recipientId,
      message = empty_message
        \<lparr>message_attachment :=
           Some \<lparr>attachment_type = ''template'',
                 attachment_payload = PayloadTemplate ''generic'' templateElements\<rparr>\<rparr>\<rparr>"

definition respondToHelpRequestWithTemplates :: "config \<Rightarrow> string \<Rightarrow> string \<Rightarrow> effect list" where
  "respondToHelpRequestWithTemplates cfg recipientId requestForHelpOnFeature =
     (let templateElements = snd (templates_switch cfg requestForHelpOnFeature)
      in [ConsoleLog ''[respondToHelpRequestWithTemplates] handling help request for %s'']
         @ (if length templateElements < 2
            then [ConsoleError ''each template should have at least two elements'']
            else [])
         @ [CallSendAPI (generic_template recipientId templateElements)])"

subsection \<open>part_001 (lines 381-546)\<close>

text \<open>
  This snapshot starts from an array of two empty postback buttons and overwrites their
  titles and payloads by index; it builds image URLs from SERVER_URL without a protocol
  prefix; and it returns before building the message when there are fewer than two cards.
\<close>

definition set_button :: "button list \<Rightarrow> nat \<Rightarrow> string \<Rightarrow> string \<Rightarrow> button list" where
  "set_button sectionButtons i t p =
     sectionButtons[i := (sectionButtons ! i)\<lparr>button_title := t, button_payload := p\<rparr>]"

definition imgBasePath_p1 :: "config \<Rightarrow> string" where
  "imgBasePath_p1 cfg = SERVER_URL cfg @ ''/assets/screenshots/''"

definition sectionButtons_init_p1 :: "button list" where
  "sectionButtons_init_p1 =
     [\<lparr>button_type = ''postback'', button_title = [], button_payload = []\<rparr>,
      \<lparr>button_type = ''postback'', button_title = [], button_payload = []\<rparr>]"

definition templates_switch_p1 :: "config \<Rightarrow> string \<Rightarrow> button list \<times> template_element list" where
  "templates_switch_p1 cfg requestForHelpOnFeature =
    (let imgBasePath = imgBasePath_p1 cfg in
     if requestForHelpOnFeature = ''QR_ROTATION_A'' then
       (let sectionButtons = set_button sectionButtons_init_p1 0 ''Background Color'' ''QR_BACKGROUND_COLOR_A'';
            sectionButtons = set_button sectionButtons 1 ''Photo'' ''QR_PHOTO_A''
        in (sectionButtons,
            [card ''Rotation'' ''portrait mode'' (imgBasePath @ ''01-rotate-landscape.png'') sectionButtons,
             card ''Rotation'' ''landscape mode'' (imgBasePath @ ''02-rotate-portrait.png'') sectionButtons]))
     else if requestForHelpOnFeature = ''QR_PHOTO_A'' then
       (let sectionButtons = set_button sectionButtons_init_p1 0 ''Rotation'' ''QR_ROTATION_A'';
            sectionButtons = set_button sectionButtons 1 ''Caption'' ''QR_POSTER_TEXT_A''
        in (sectionButtons,
            [card ''Photo Picker'' ''click to start'' (imgBasePath @ ''03-photo-hover.png'') sectionButtons,
             card ''Photo Picker'' ''Downloads folder'' (imgBasePath @ ''04-photo-list.png'') sectionButtons,
             card ''Photo Picker'' ''photo selected'' (imgBasePath @ ''05-photo-selected.png'') sectionButtons]))
     else if requestForHelpOnFeature = ''QR_POSTER_TEXT_A'' then
       (let sectionButtons = set_button sectionButtons_init_p1 0 ''Photo'' ''QR_PHOTO_A'';
            sectionButtons = set_button sectionButtons 1 ''Background Color'' ''QR_BACKGROUND_COLOR_A''
        in (sectionButtons,
            [card ''Caption'' ''click to start'' (imgBasePath @ ''06-text-hover.png'') sectionButtons,
             card ''Caption'' ''enter text'' (imgBasePath @ ''07-text-mid-entry.png'') sectionButtons,
             card ''Caption'' ''click OK'' (imgBasePath @ ''08-text-entry-done.png'') sectionButtons,
             card ''Caption'' ''Caption done'' (imgBasePath @ ''09-text-complete.png'') sectionButtons]))
     else if requestForHelpOnFeature = ''QR_BACKGROUND_COLOR_A'' then
       (let sectionButtons = set_button sectionButtons_init_p1 0 ''Caption'' ''QR_POSTER_TEXT_A'';
            sectionButtons = set_button sectionButtons 1 ''Rotate'' ''QR_ROTATION_A''
        in (sectionButtons,
            [card ''Color Picker'' ''click to start'' (imgBasePath @ ''10-background-picker-hover.png'') sectionButtons,
             card ''Color Picker'' ''click current color'' (imgBasePath @ ''11-background-picker-appears.png'') sectionButtons,
             card ''Color Picker'' ''select new color'' (imgBasePath @ ''12-background-picker-selection.png'') sectionButtons,
             card ''Color Picker'' ''click ok'' (imgBasePath @ ''13-background-picker-selection-made.png'') sectionButtons,
             card ''Color Picker'' ''color is applied'' (imgBasePath @ ''14-background-changed.png'') sectionButtons]))
     else (sectionButtons_init_p1, []))"

definition respondToHelpRequestWithTemplates_p1 :: "config \<Rightarrow> string \<Rightarrow> string \<Rightarrow> effect list" where
  "respondToHelpRequestWithTemplates_p1 cfg recipientId requestForHelpOnFeature =
     (let templateElements = snd (templates_switch_p1 cfg requestForHelpOnFeature)
      in if length templateElements < 2
         then [ConsoleLog ''add at least two elements'']
         else [CallSendAPI (generic_template recipientId templateElements)])"

section \<open>The top-level prompt\<close>

definition text_choice :: "string \<Rightarrow> string \<Rightarrow> quick_reply" where
  "text_choice t p = \<lparr>content_type = ''text'', title = t, payload = p\<rparr>"

definition quick_reply_prompt :: "string \<Rightarrow> string \<Rightarrow> quick_reply list \<Rightarrow> messageData" where
  "quick_reply_prompt recipientId t choices =
     \<lparr>recipient_id = recipientId,
      message = empty_message\<lparr>message_text := Some t, quick_replies := Some choices\<rparr>\<rparr>"

text \<open>part_000, lines 213-246.\<close>

definition sendHelpOptionsAsQuickReplies_p0 :: "string \<Rightarrow> effect list" where
  "sendHelpOptionsAsQuickReplies_p0 recipientId =
     [ConsoleLog ''[sendHelpOptionsAsQuickReplies] Sending help options menu'',
      CallSendAPI (quick_reply_prompt recipientId ''Select a feature to learn more.''
        [text_choice ''Rotation'' ''QR_ROTATION_1'',
         text_choice ''Photo'' ''QR_PHOTO_1'',
         text_choice ''Caption'' ''QR_CAPTION_1'',
         text_choice ''Background'' ''QR_BACKGROUND_1''])]"

text \<open>part_001, lines 318-351.\<close>

definition sendHelpOptions_p1 :: "string \<Rightarrow> effect list" where
  "sendHelpOptions_p1 recipientId =
     [CallSendAPI (quick_reply_prompt recipientId ''Select a feature to learn more.''
        [text_choice ''Rotation'' ''QR_ROTATION_A'',
         text_choice ''Photo'' ''QR_PHOTO_A'',
         text_choice ''Poster Text'' ''QR_POSTER_TEXT_A'',
         text_choice ''Background Color'' ''QR_BACKGROUND_COLOR_A''])]"

section \<open>Linear mode: respondToHelpRequestWithLinearPhotos\<close>

text \<open>
  The function keeps three local variables, changes them in a \<open>switch\<close> on the payload
  token, and then builds one message from them. The record holds the locals; each
  \<open>case\<close> body is one of three shapes, written once here:
  \<^item> an intro step sets \<open>textToSend\<close> and \<open>quickReplies[1].payload\<close>;
  \<^item> a middle step sets \<open>attachment.payload = {url: ...}\<close> and \<open>quickReplies[1].payload\<close>;
  \<^item> a last step sets \<open>attachment.payload\<close>, pops \<open>quickReplies\<close> and retitles
    \<open>quickReplies[0]\<close>.
  The index updates are always in range: the array starts with two entries.
\<close>

record linear_locals =
  textToSend :: string
  quickReplies :: "quick_reply list"
  attachment_local :: attachment

definition linear_init :: linear_locals where
  "linear_init =
     \<lparr>textToSend = [],
      quickReplies = [text_choice ''Restart'' ''QR_RESTART'', text_choice ''Continue'' []],
      attachment_local = \<lparr>attachment_type = ''image'', attachment_payload = PayloadString []\<rparr>\<rparr>"

definition set_continue :: "string \<Rightarrow> quick_reply list \<Rightarrow> quick_reply list" where
  "set_continue p qs = qs[1 := (qs ! 1)\<lparr>payload := p\<rparr>]"

definition intro_step :: "string \<Rightarrow> string \<Rightarrow> linear_locals \<Rightarrow> linear_locals" where
  "intro_step t next l = l\<lparr>textToSend := t, quickReplies := set_continue next (quickReplies l)\<rparr>"

definition middle_step :: "string \<Rightarrow> string \<Rightarrow> linear_locals \<Rightarrow> linear_locals" where
  "middle_step u next l =
     l\<lparr>attachment_local := (attachment_local l)\<lparr>attachment_payload := PayloadUrl u\<rparr>,
       quickReplies := set_continue next (quickReplies l)\<rparr>"

definition last_step :: "string \<Rightarrow> linear_locals \<Rightarrow> linear_locals" where
  "last_step u l =
     (let popped = butlast (quickReplies l)
      in l\<lparr>attachment_local := (attachment_local l)\<lparr>attachment_payload := PayloadUrl u\<rparr>,
           quickReplies := popped[0 := (popped ! 0)\<lparr>title := ''Explore another feature''\<rparr>]\<rparr>)"

text \<open>
  The tail of the function (part_002 lines 558-573, part_001 lines 719-734): the message
  starts with \<open>text\<close> and \<open>quick_replies\<close>; when \<open>attachment.payload !== ""\<close> the
  attachment is added and the \<open>text\<close> key is deleted.
\<close>

definition linear_message :: "string \<Rightarrow> linear_locals \<Rightarrow> messageData" where
  "linear_message recipientId l =
     (let m = empty_message\<lparr>message_text := Some (textToSend l),
                            quick_replies := Some (quickReplies l)\<rparr>;
          m = (if attachment_payload (attachment_local l) \<noteq> PayloadString []
               then m\<lparr>message_attachment := Some (attachment_local l), message_text := None\<rparr>
               else m)
      in \<lparr>recipient_id = recipientId, message = m\<rparr>)"

subsection \<open>part_002 (lines 387-574)\<close>

text \<open>
  The \<open>switch\<close>: \<open>Inr\<close> is the locals after a \<open>break\<close>. The \<open>case 'QR_RESTART'\<close>
  (line 413) and the \<open>default\<close> (line 552) call \<open>sendHelpOptions(recipientId)\<close>, and
  part_002 has no declaration of \<open>sendHelpOptions\<close> anywhere (part_001 has one, part_000
  names it \<open>sendHelpOptionsAsQuickReplies\<close>): evaluating the identifier throws a
  \<open>ReferenceError\<close> before anything is sent. That is the \<open>Inl\<close> result. The function
  has produced no effect at that point.
\<close>

definition linear_switch_p2 :: "config \<Rightarrow> string \<Rightarrow> string \<Rightarrow> js_error + linear_locals" where
  "linear_switch_p2 cfg recipientId helpRequestType =
    (let b = IMG_BASE_PATH cfg; l = linear_init in
     if helpRequestType = ''QR_RESTART'' then Inl (ReferenceError ''sendHelpOptions is not defined'')
     else if helpRequestType = ''QR_ROTATION_1'' then
       Inr (intro_step ''Click the Rotate button to toggle the poster's orientation between landscape and portrait mode.'' ''QR_ROTATION_2'' l)
     else if helpRequestType = ''QR_ROTATION_2'' then
       Inr (middle_step (b @ ''01-rotate-landscape.png'') ''QR_ROTATION_3'' l)
     else if helpRequestType = ''QR_ROTATION_3'' then
       Inr (last_step (b @ ''02-rotate-portrait.png'') l)
     else if helpRequestType = ''QR_PHOTO_1'' then
       Inr (intro_step ''Click the Photo button to select an image to use on your poster. We recommend visiting https://unsplash.com/random from your device to seed your Downloads folder with some images before you get started.'' ''QR_PHOTO_2'' l)
     else if helpRequestType = ''QR_PHOTO_2'' then
       Inr (middle_step (b @ ''03-photo-hover.png'') ''QR_PHOTO_3'' l)
     else if helpRequestType = ''QR_PHOTO_3'' then
       Inr (middle_step (b @ ''04-photo-list.png'') ''QR_PHOTO_4'' l)
     else if helpRequestType = ''QR_PHOTO_4'' then
       Inr (last_step (b @ ''05-photo-selected.png'') l)
     else if helpRequestType = ''QR_CAPTION_1'' then
       Inr (intro_step ''Click the Text button to set the caption that appears at the bottom of the poster.'' ''QR_CAPTION_2'' l)
     else if helpRequestType = ''QR_CAPTION_2'' then
       Inr (middle_step (b @ ''06-text-hover.png'') ''QR_CAPTION_3'' l)
     else if helpRequestType = ''QR_CAPTION_3'' then
       Inr (middle_step (b @ ''07-text-mid-entry.png'') ''QR_CAPTION_4'' l)
     else if helpRequestType = ''QR_CAPTION_4'' then
       Inr (middle_step (b @ ''08-text-entry-done.png'') ''QR_CAPTION_5'' l)
     else if helpRequestType = ''QR_CAPTION_5'' then
       Inr (last_step (b @ ''09-text-complete.png'') l)
     else if helpRequestType = ''QR_BACKGROUND_1'' then
       Inr (intro_step ''Click the Background button to select a background color for your poster.'' ''QR_BACKGROUND_2'' l)
     else if helpRequestType = ''QR_BACKGROUND_2'' then
       Inr (middle_step (b @ ''10-background-picker-hover.png'') ''QR_BACKGROUND_3'' l)
     else if helpRequestType = ''QR_BACKGROUND_3'' then
       Inr (middle_step (b @ ''11-background-picker-appears.png'') ''QR_BACKGROUND_4'' l)
     else if helpRequestType = ''QR_BACKGROUND_4'' then
       Inr (middle_step (b @ ''12-background-picker-selection.png'') ''QR_BACKGROUND_5'' l)
     else if helpRequestType = ''QR_BACKGROUND_5'' then
       Inr (middle_step (b @ ''13-background-picker-selection-made.png'') ''QR_BACKGROUND_6'' l)
     else if helpRequestType = ''QR_BACKGROUND_6'' then
       Inr (last_step (b @ ''14-background-changed.png'') l)
     else Inl (ReferenceError ''sendHelpOptions is not defined''))"

definition respondToHelpRequestWithLinearPhotos_p2 ::
  "config \<Rightarrow> string \<Rightarrow> string \<Rightarrow> js_error + effect list" where
  "respondToHelpRequestWithLinearPhotos_p2 cfg recipientId helpRequestType =
     (case linear_switch_p2 cfg recipientId helpRequestType of
        Inl thrown \<Rightarrow> Inl thrown
      | Inr l \<Rightarrow> Inr [CallSendAPI (linear_message recipientId l)])"

subsection \<open>part_001 (lines 549-735)\<close>

text \<open>
  part_001 declares \<open>sendHelpOptions\<close> (lines 318-351). Here \<open>Inl\<close> is the early
  \<open>return\<close> of the \<open>case 'QR_RESTART'\<close> and of the \<open>default\<close>, with the effects of the
  call made before it, and \<open>Inr\<close> the locals after a \<open>break\<close>.
\<close>

definition linear_switch_p1 :: "config \<Rightarrow> string \<Rightarrow> string \<Rightarrow> effect list + linear_locals" where
  "linear_switch_p1 cfg recipientId helpRequestType =
    (let b = imgBasePath_p1 cfg; s = SERVER_URL cfg; l = linear_init in
     if helpRequestType = ''QR_RESTART'' then Inl (sendHelpOptions_p1 recipientId)
     else if helpRequestType = ''QR_ROTATION_A'' then
       Inr (intro_step ''Click the Rotate button to toggle the poster's orientation between landscape and portrait mode.'' ''QR_ROTATION_B'' l)
     else if helpRequestType = ''QR_ROTATION_B'' then
       Inr (middle_step (b @ ''01-rotate-landscape.png'') ''QR_ROTATION_C'' l)
     else if helpRequestType = ''QR_ROTATION_C'' then
       Inr (last_step (b @ ''02-rotate-portrait.png'') l)
     else if helpRequestType = ''QR_PHOTO_A'' then
       Inr (intro_step ''Click the Photo button to select an image to use on your poster. We recommend visiting https://unsplash.com/random from your device to seed your Downloads folder with some images before you get started.'' ''QR_PHOTO_B'' l)
     else if helpRequestType = ''QR_PHOTO_B'' then
       Inr (middle_step (b @ ''03-photo-hover.png'') ''QR_PHOTO_C'' l)
     else if helpRequestType = ''QR_PHOTO_C'' then
       Inr (middle_step (b @ ''04-photo-list.png'') ''QR_PHOTO_D'' l)
     else if helpRequestType = ''QR_PHOTO_D'' then
       Inr (last_step (b @ ''05-photo-selected.png'') l)
     else if helpRequestType = ''QR_POSTER_TEXT_A'' then
       Inr (intro_step ''Click the Text button to set the caption that appears at the bottom of the poster.'' ''QR_POSTER_TEXT_B'' l)
     else if helpRequestType = ''QR_POSTER_TEXT_B'' then
       Inr (middle_step (b @ ''06-text-hover.png'') ''QR_POSTER_TEXT_C'' l)
     else if helpRequestType = ''QR_POSTER_TEXT_C'' then
       Inr (middle_step (b @ ''07-text-mid-entry.png'') ''QR_POSTER_TEXT_D'' l)
     else if helpRequestType = ''QR_POSTER_TEXT_D'' then
       Inr (middle_step (b @ ''08-text-entry-done.png'') ''QR_POSTER_TEXT_E'' l)
     else if helpRequestType = ''QR_POSTER_TEXT_E'' then
       Inr (last_step (b @ ''09-text-complete.png'') l)
     else if helpRequestType = ''QR_BACKGROUND_COLOR_A'' then
       Inr (intro_step ''Click the Background button to select a background color for your poster.'' ''QR_BACKGROUND_COLOR_B'' l)
     else if helpRequestType = ''QR_BACKGROUND_COLOR_B'' then
       Inr (middle_step (s @ ''/assets/screenshots/10-background-picker-hover.png'') ''QR_BACKGROUND_COLOR_C'' l)
     else if helpRequestType = ''QR_BACKGROUND_COLOR_C'' then
       Inr (middle_step (s @ ''/assets/screenshots/11-background-picker-appears.png'') ''QR_BACKGROUND_COLOR_D'' l)
     else if helpRequestType = ''QR_BACKGROUND_COLOR_D'' then
       Inr (middle_step (s @ ''/assets/screenshots/12-background-picker-selection.png'') ''QR_BACKGROUND_COLOR_E'' l)
     else if helpRequestType = ''QR_BACKGROUND_COLOR_E'' then
       Inr (middle_step (s @ ''/assets/screenshots/13-background-picker-selection-made.png'') ''QR_BACKGROUND_COLOR_F'' l)
     else if helpRequestType = ''QR_BACKGROUND_COLOR_F'' then
       Inr (last_step (s @ ''/assets/screenshots/14-background-changed.png'') l)
     else Inl (sendHelpOptions_p1 recipientId))"

definition respondToHelpRequestWithLinearPhotos_p1 :: "config \<Rightarrow> string \<Rightarrow> string \<Rightarrow> effect list" where
  "respondToHelpRequestWithLinearPhotos_p1 cfg recipientId helpRequestType =
     (case linear_switch_p1 cfg recipientId helpRequestType of
        Inl returned \<Rightarrow> returned
      | Inr l \<Rightarrow> [CallSendAPI (linear_message recipientId l)])"

section \<open>Inbound webhook events\<close>

text \<open>
  The parsed request body. Only the properties the handlers read are kept. An event
  always has \<open>sender.id\<close>; \<open>message\<close>, \<open>delivery\<close> and \<open>postback\<close> may each be
  missing. Of a message, \<open>text\<close> may be missing, and \<open>quick_reply\<close>, when there, is an
  object with a \<open>payload\<close> string (an object is truthy whatever it holds).
\<close>

record received_message =
  received_text :: "string option"
  received_quick_reply :: "string option"

record delivery =
  mids :: "string list option"
  watermark :: int

record messagingEvent =
  sender_id :: string
  event_message :: "received_message option"
  event_delivery :: "delivery option"
  event_postback :: "string option"

record pageEntry =
  messaging :: "messagingEvent list"

record webhook_body =
  body_object :: string
  entry :: "pageEntry list"

text \<open>\<open>if (messageText)\<close>: a string is truthy unless it is missing or empty.\<close>

fun truthy :: "string option \<Rightarrow> bool" where
  "truthy None = False"
| "truthy (Some s) = (s \<noteq> [])"

text \<open>
  \<open>String.prototype.toLowerCase\<close> on the letters A-Z; every other character is left as
  it is. (JavaScript also lowers letters outside ASCII; none of them becomes one of the
  letters h, e, l, p, so the comparison with \<open>'help'\<close> below is not affected.)
\<close>

definition toLowerCase_char :: "char \<Rightarrow> char" where
  "toLowerCase_char c =
     (case map_of (zip ''ABCDEFGHIJKLMNOPQRSTUVWXYZ'' ''abcdefghijklmnopqrstuvwxyz'') c of
        Some l \<Rightarrow> l
      | None \<Rightarrow> c)"

definition toLowerCase :: "string \<Rightarrow> string" where
  "toLowerCase s = map toLowerCase_char s"

section \<open>Message handlers\<close>

text \<open>sendTextMessage: part_002 lines 627-639 (the same in part_001, lines 942-954).\<close>

definition sendTextMessage_p2 :: "string \<Rightarrow> string \<Rightarrow> effect list" where
  "sendTextMessage_p2 recipientId messageText =
     [CallSendAPI \<lparr>recipient_id = recipientId,
                   message = empty_message\<lparr>message_text := Some messageText,
                                           metadata := Some ''DEVELOPER_DEFINED_METADATA''\<rparr>\<rparr>]"

text \<open>sendTextMessage: node/app.js lines 194-205 and part_000 lines 439-450.\<close>

definition sendTextMessage_app :: "string \<Rightarrow> string \<Rightarrow> effect list" where
  "sendTextMessage_app recipientId messageText =
     [ConsoleLog ''[sendTextMessage] %s'',
      CallSendAPI \<lparr>recipient_id = recipientId,
                   message = empty_message\<lparr>message_text := Some messageText\<rparr>\<rparr>]"

text \<open>handleQuickReplyResponse: part_002 lines 196-211 and part_000 lines 252-265.\<close>

definition handleQuickReplyResponse :: "config \<Rightarrow> string \<Rightarrow> string \<Rightarrow> effect list" where
  "handleQuickReplyResponse cfg senderID quickReplyPayload =
     ConsoleLog ''[handleQuickReplyResponse] Handling quick reply response (%s) from sender (%d) to page (%d) with message (%s)''
     # respondToHelpRequestWithTemplates cfg senderID quickReplyPayload"

text \<open>receivedMessage: part_002 lines 169-189.\<close>

definition receivedMessage_p2 :: "config \<Rightarrow> string \<Rightarrow> received_message \<Rightarrow> effect list" where
  "receivedMessage_p2 cfg senderID msg =
     ConsoleLog ''[receivedMessage] user (%d) page (%d) timestamp (%d) and message (%s)''
     # (case received_quick_reply msg of
          Some quickReplyPayload \<Rightarrow>
            ConsoleLog ''[receivedMessage] quick_reply.payload (%s)''
            # handleQuickReplyResponse cfg senderID quickReplyPayload
        | None \<Rightarrow>
            (case received_text msg of
               Some messageText \<Rightarrow>
                 if truthy (Some messageText) then sendTextMessage_p2 senderID messageText else []
             | None \<Rightarrow> []))"

text \<open>processMessageFromPage: part_000 lines 173-207.\<close>

definition processMessageFromPage_p0 :: "config \<Rightarrow> string \<Rightarrow> received_message \<Rightarrow> effect list" where
  "processMessageFromPage_p0 cfg senderID msg =
     ConsoleLog ''[processMessageFromPage] user (%d) page (%d) timestamp (%d) and message (%s)''
     # (case received_quick_reply msg of
          Some quickReplyPayload \<Rightarrow>
            ConsoleLog ''[processMessageFromPage] quick_reply.payload (%s)''
            # handleQuickReplyResponse cfg senderID quickReplyPayload
        | None \<Rightarrow>
            (case received_text msg of
               Some messageText \<Rightarrow>
                 if truthy (Some messageText) then
                   ConsoleLog ''[processMessageFromPage]: %s''
                   # (let lowerCaseMsg = toLowerCase messageText
                      in if lowerCaseMsg = ''help''
                         then sendHelpOptionsAsQuickReplies_p0 senderID
                         else sendTextMessage_app senderID messageText)
                 else []
             | None \<Rightarrow> []))"

text \<open>processMessageFromPage: node/app.js lines 172-188.\<close>

definition processMessageFromPage_app :: "string \<Rightarrow> received_message \<Rightarrow> effect list" where
  "processMessageFromPage_app senderID msg =
     ConsoleLog ''[processMessageFromPage] user (%d) page (%d) timestamp (%d) and message (%s)''
     # (case received_text msg of
          Some messageText \<Rightarrow>
            if truthy (Some messageText) then
              ConsoleLog ''[processMessageFromPage]: %s'' # sendTextMessage_app senderID messageText
            else []
        | None \<Rightarrow> [])"

text \<open>receivedDeliveryConfirmation: part_002 lines 583-599.\<close>

definition receivedDeliveryConfirmation :: "delivery \<Rightarrow> effect list" where
  "receivedDeliveryConfirmation d =
     (case mids d of
        Some messageIDs \<Rightarrow>
          map (\<lambda>messageID. ConsoleLog ''[receivedDeliveryConfirmation] Message with ID %s was delivered'')
            messageIDs
      | None \<Rightarrow> [])
     @ [ConsoleLog ''[receivedDeliveryConfirmation] All messages before timestamp %d were delivered.'']"

text \<open>receivedPostback: part_002 lines 608-621.\<close>

definition receivedPostback_p2 :: "config \<Rightarrow> string \<Rightarrow> string \<Rightarrow> effect list" where
  "receivedPostback_p2 cfg senderID p =
     ConsoleLog ''[receivedPostback] from user (%d) on page (%d) with payload ('%s') at (%d)''
     # respondToHelpRequestWithTemplates cfg senderID p"

text \<open>processPostbackMessage: node/app.js lines 152-166 (it only logs).\<close>

definition processPostbackMessage_app :: "string \<Rightarrow> string \<Rightarrow> effect list" where
  "processPostbackMessage_app senderID p =
     [ConsoleLog ''[processPostbackMessage] from user (%d) on page (%d) with payload ('%s') at (%d)'']"

text \<open>processPostbackMessage: part_000 lines 152-167.\<close>

definition processPostbackMessage_p0 :: "config \<Rightarrow> string \<Rightarrow> string \<Rightarrow> effect list" where
  "processPostbackMessage_p0 cfg senderID p =
     ConsoleLog ''[processPostbackMessage] from user (%d) on page (%d) with payload ('%s') at (%d)''
     # respondToHelpRequestWithTemplates cfg senderID p"

section \<open>The POST /webhook handlers\<close>

text \<open>
  \<open>forEach\<close> over the entries and over each entry's events, in order. The call
  \<open>res.sendStatus(200)\<close> stands inside the \<open>if (data.object == 'page')\<close> block in every
  snapshot, after the loops.
\<close>

text \<open>part_002 lines 117-159.\<close>

definition dispatch_p2 :: "config \<Rightarrow> messagingEvent \<Rightarrow> effect list" where
  "dispatch_p2 cfg ev =
     ConsoleLog ''[app.post] Webhook received a messagingEvent with properties: ''
     # (case event_message ev of
          Some msg \<Rightarrow> receivedMessage_p2 cfg (sender_id ev) msg
        | None \<Rightarrow>
            (case event_delivery ev of
               Some d \<Rightarrow> receivedDeliveryConfirmation d
             | None \<Rightarrow>
                 (case event_postback ev of
                    Some p \<Rightarrow> receivedPostback_p2 cfg (sender_id ev) p
                  | None \<Rightarrow> [ConsoleLog ''[app.post] Webhook is not prepared to handle this message.''])))"

definition post_webhook_p2 :: "config \<Rightarrow> webhook_body \<Rightarrow> effect list" where
  "post_webhook_p2 cfg data =
     (if body_object data = ''page''
      then concat (map (\<lambda>pageEntry. concat (map (dispatch_p2 cfg) (messaging pageEntry))) (entry data))
           @ [SendStatus 200]
      else [])"

text \<open>node/app.js lines 116-143.\<close>

definition dispatch_app :: "messagingEvent \<Rightarrow> effect list" where
  "dispatch_app ev =
     ConsoleLog ''[app.post] Webhook event props: ''
     # (case event_message ev of
          Some msg \<Rightarrow> processMessageFromPage_app (sender_id ev) msg
        | None \<Rightarrow>
            (case event_postback ev of
               Some p \<Rightarrow> processPostbackMessage_app (sender_id ev) p
             | None \<Rightarrow> [ConsoleLog ''[app.post] not prepared to handle this message type.'']))"

definition post_webhook_app :: "webhook_body \<Rightarrow> effect list" where
  "post_webhook_app data =
     ConsoleLog ''message received!''
     # (if body_object data = ''page''
        then concat (map (\<lambda>pageEntry. concat (map dispatch_app (messaging pageEntry))) (entry data))
             @ [SendStatus 200]
        else [])"

text \<open>part_000 lines 116-143.\<close>

definition dispatch_p0 :: "config \<Rightarrow> messagingEvent \<Rightarrow> effect list" where
  "dispatch_p0 cfg ev =
     ConsoleLog ''[app.post] Webhook event props: ''
     # (case event_message ev of
          Some msg \<Rightarrow> processMessageFromPage_p0 cfg (sender_id ev) msg
        | None \<Rightarrow>
            (case event_postback ev of
               Some p \<Rightarrow> processPostbackMessage_p0 cfg (sender_id ev) p
             | None \<Rightarrow> [ConsoleLog ''[app.post] not prepared to handle this message type.'']))"

definition post_webhook_p0 :: "config \<Rightarrow> webhook_body \<Rightarrow> effect list" where
  "post_webhook_p0 cfg data =
     ConsoleLog ''message received!''
     # (if body_object data = ''page''
        then concat (map (\<lambda>pageEntry. concat (map (dispatch_p0 cfg) (messaging pageEntry))) (entry data))
             @ [SendStatus 200]
        else [])"

section \<open>verifyRequestSignature\<close>

text \<open>
  part_002 lines 72-91, node/app.js lines 67-88, part_000 lines 67-88, part_001 lines
  153-173: the same statements in all four. The header value is \<open>None\<close> when the request
  has no \<open>x-hub-signature\<close> header. \<open>crypto.createHmac('sha1', APP_SECRET).update(buf)
  .digest('hex')\<close> is a library call: its result is the parameter \<open>hmac_sha1_hex\<close>,
  applied to the secret and the raw body. The \<open>throw new Error(...)\<close> is the \<open>Inl\<close>
  result.
\<close>

fun split_on :: "char \<Rightarrow> string \<Rightarrow> string list" where
  "split_on c [] = [[]]"
| "split_on c (x # xs) =
     (if x = c then [] # split_on c xs
      else (case split_on c xs of
              w # ws \<Rightarrow> (x # w) # ws
            | [] \<Rightarrow> [[x]]))"

text \<open>\<open>elements[1]\<close>: \<open>undefined\<close> (here \<open>None\<close>) when the array is shorter.\<close>

definition element_at :: "'a list \<Rightarrow> nat \<Rightarrow> 'a option" where
  "element_at xs i = (if i < length xs then Some (xs ! i) else None)"

definition verifyRequestSignature ::
  "(string \<Rightarrow> string \<Rightarrow> string) \<Rightarrow> config \<Rightarrow> string option \<Rightarrow> string \<Rightarrow> js_error + effect list" where
  "verifyRequestSignature hmac_sha1_hex cfg signature buf =
     (if \<not> truthy signature then
        Inr [ConsoleError ''Couldn't validate the signature.'']
      else
        (let elements = split_on (CHR ''='') (case signature of Some s \<Rightarrow> s | None \<Rightarrow> []);
             signatureHash = element_at elements 1;
             expectedHash = hmac_sha1_hex (APP_SECRET cfg) buf
         in if signatureHash \<noteq> Some expectedHash
            then Inl (Error ''Couldn't validate the request signature.'')
            else Inr []))"

text \<open>
  \<open>app.use(bodyParser.json({ verify: verifyRequestSignature }))\<close> followed by
  \<open>app.post('/webhook', handler)\<close>: the body parser calls the verifier on the raw body
  before parsing; when the verifier throws, the error goes to the framework's error
  handling and the route handler is not run; when it returns, the handler runs on the
  parsed body \<open>data\<close>.
\<close>

definition post_request ::
  "(string \<Rightarrow> string \<Rightarrow> string) \<Rightarrow> config \<Rightarrow> (webhook_body \<Rightarrow> effect list)
     \<Rightarrow> string option \<Rightarrow> string \<Rightarrow> webhook_body \<Rightarrow> js_error + effect list" where
  "post_request hmac_sha1_hex cfg handler signature buf data =
     (case verifyRequestSignature hmac_sha1_hex cfg signature buf of
        Inl e \<Rightarrow> Inl e
      | Inr logged \<Rightarrow> Inr (logged @ handler data))"

section \<open>Vocabulary for the statements\<close>

text \<open>
  The four topics, and the payload tokens as the \<open>case\<close> labels of part_002 and part_000
  spell them: \<open>QR_<TOPIC>_<n>\<close>, with \<open>n = 1\<close> the topic's entry (and intro step) and
  the last label of each topic its terminal step (QR_ROTATION_3, QR_PHOTO_4,
  QR_CAPTION_5, QR_BACKGROUND_6). part_001 spells the entry tokens differently. These
  definitions only name inputs; the responders above never use them.
\<close>

datatype TopicId = Rotation | Photo | Caption | Background

definition all_topics :: "TopicId list" where
  "all_topics = [Rotation, Photo, Caption, Background]"

fun topic_label :: "TopicId \<Rightarrow> string" where
  "topic_label Rotation = ''ROTATION''"
| "topic_label Photo = ''PHOTO''"
| "topic_label Caption = ''CAPTION''"
| "topic_label Background = ''BACKGROUND''"

fun topic_title :: "TopicId \<Rightarrow> string" where
  "topic_title Rotation = ''Rotation''"
| "topic_title Photo = ''Photo''"
| "topic_title Caption = ''Caption''"
| "topic_title Background = ''Background''"

definition digit :: "nat \<Rightarrow> char" where
  "digit n = ''0123456789'' ! n"

definition step_token :: "TopicId \<Rightarrow> nat \<Rightarrow> string" where
  "step_token t n = ''QR_'' @ topic_label t @ ''_'' @ [digit n]"

definition topic_token :: "TopicId \<Rightarrow> string" where
  "topic_token t = step_token t 1"

fun terminal_step :: "TopicId \<Rightarrow> nat" where
  "terminal_step Rotation = 3"
| "terminal_step Photo = 4"
| "terminal_step Caption = 5"
| "terminal_step Background = 6"

fun topic_token_p1 :: "TopicId \<Rightarrow> string" where
  "topic_token_p1 Rotation = ''QR_ROTATION_A''"
| "topic_token_p1 Photo = ''QR_PHOTO_A''"
| "topic_token_p1 Caption = ''QR_POSTER_TEXT_A''"
| "topic_token_p1 Background = ''QR_BACKGROUND_COLOR_A''"

text \<open>The restart sentinel: the label of the first \<open>case\<close> of the linear responder.\<close>

definition RESTART :: string where
  "RESTART = ''QR_RESTART''"

text \<open>The step labels of the two linear responders, in the order of their \<open>case\<close>s.\<close>

definition linear_steps_p2 :: "string list" where
  "linear_steps_p2 =
     [''QR_ROTATION_1'', ''QR_ROTATION_2'', ''QR_ROTATION_3'',
      ''QR_PHOTO_1'', ''QR_PHOTO_2'', ''QR_PHOTO_3'', ''QR_PHOTO_4'',
      ''QR_CAPTION_1'', ''QR_CAPTION_2'', ''QR_CAPTION_3'', ''QR_CAPTION_4'', ''QR_CAPTION_5'',
      ''QR_BACKGROUND_1'', ''QR_BACKGROUND_2'', ''QR_BACKGROUND_3'', ''QR_BACKGROUND_4'',
      ''QR_BACKGROUND_5'', ''QR_BACKGROUND_6'']"

definition linear_steps_p1 :: "string list" where
  "linear_steps_p1 =
     [''QR_ROTATION_A'', ''QR_ROTATION_B'', ''QR_ROTATION_C'',
      ''QR_PHOTO_A'', ''QR_PHOTO_B'', ''QR_PHOTO_C'', ''QR_PHOTO_D'',
      ''QR_POSTER_TEXT_A'', ''QR_POSTER_TEXT_B'', ''QR_POSTER_TEXT_C'', ''QR_POSTER_TEXT_D'',
      ''QR_POSTER_TEXT_E'',
      ''QR_BACKGROUND_COLOR_A'', ''QR_BACKGROUND_COLOR_B'', ''QR_BACKGROUND_COLOR_C'',
      ''QR_BACKGROUND_COLOR_D'', ''QR_BACKGROUND_COLOR_E'', ''QR_BACKGROUND_COLOR_F'']"

text \<open>The top-level prompt as the two snapshots that define it build it.\<close>

definition top_level_prompt_p0 :: "string \<Rightarrow> messageData" where
  "top_level_prompt_p0 recipientId =
     quick_reply_prompt recipientId ''Select a feature to learn more.''
       (map (\<lambda>t. text_choice (topic_title t) (topic_token t)) all_topics)"

definition top_level_prompt_p1 :: "string \<Rightarrow> messageData" where
  "top_level_prompt_p1 recipientId =
     quick_reply_prompt recipientId ''Select a feature to learn more.''
       [text_choice ''Rotation'' ''QR_ROTATION_A'',
        text_choice ''Photo'' ''QR_PHOTO_A'',
        text_choice ''Poster Text'' ''QR_POSTER_TEXT_A'',
        text_choice ''Background Color'' ''QR_BACKGROUND_COLOR_A'']"

text \<open>The button rows of every card of every carousel in a trace.\<close>

definition button_rows :: "effect list \<Rightarrow> button list list" where
  "button_rows es =
     concat (map (\<lambda>m. case cards_of m of Some cs \<Rightarrow> map buttons cs | None \<Rightarrow> []) (sent es))"

definition postback :: "string \<Rightarrow> string \<Rightarrow> button" where
  "postback t p = \<lparr>button_type = ''postback'', button_title = t, button_payload = p\<rparr>"

text \<open>A configuration and inputs for the closed examples.\<close>

definition example_config :: config where
  "example_config =
     \<lparr>APP_SECRET = ''secret'', VALIDATION_TOKEN = ''token'', PAGE_ACCESS_TOKEN = ''page-token'',
      SERVER_URL = ''bot.example.com''\<rparr>"

definition text_event :: "string \<Rightarrow> string \<Rightarrow> messagingEvent" where
  "text_event senderID t =
     \<lparr>sender_id = senderID,
      event_message = Some \<lparr>received_text = Some t, received_quick_reply = None\<rparr>,
      event_delivery = None,
      event_postback = None\<rparr>"

section \<open>Unfolding rules and helper lemmas\<close>

lemmas carousel_defs = templates_switch_def addSectionButton_def card_def

lemmas templates_defs =
  respondToHelpRequestWithTemplates_def carousel_defs generic_template_def Let_def

lemmas templates_p1_defs =
  respondToHelpRequestWithTemplates_p1_def templates_switch_p1_def set_button_def
  sectionButtons_init_p1_def imgBasePath_p1_def card_def generic_template_def Let_def

lemmas token_defs = topic_token_def step_token_def digit_def RESTART_def

lemmas linear_defs =
  linear_message_def intro_step_def middle_step_def last_step_def set_continue_def
  linear_init_def Let_def empty_message_def text_choice_def

lemmas linear_p2_defs =
  respondToHelpRequestWithLinearPhotos_p2_def linear_switch_p2_def linear_defs

lemmas linear_p1_defs =
  respondToHelpRequestWithLinearPhotos_p1_def linear_switch_p1_def linear_defs

lemmas prompt_defs =
  sendHelpOptions_p1_def sendHelpOptionsAsQuickReplies_p0_def top_level_prompt_p0_def
  top_level_prompt_p1_def quick_reply_prompt_def all_topics_def

text \<open>The message built at the end of the linear responder never has both keys.\<close>

lemma linear_message_exclusive:
  "message_attachment (message (linear_message rid l)) \<noteq> None \<Longrightarrow>
   message_text (message (linear_message rid l)) = None"
  by (simp add: linear_message_def Let_def empty_message_def split: if_splits)

text \<open>An early \<open>return\<close> of part_001's switch happens only after the call of the prompt helper.\<close>

lemma linear_switch_p1_returns:
  "linear_switch_p1 cfg rid tok = Inl es \<Longrightarrow> es = sendHelpOptions_p1 rid"
  by (simp add: linear_switch_p1_def Let_def split: if_splits)

lemma sent_linear_p2:
  "m \<in> set (sent_result (respondToHelpRequestWithLinearPhotos_p2 cfg rid tok)) \<Longrightarrow>
   \<exists>l. m = linear_message rid l"
  by (auto simp: respondToHelpRequestWithLinearPhotos_p2_def sent_result_def split: sum.splits)

lemma sent_linear_p1:
  "m \<in> set (sent (respondToHelpRequestWithLinearPhotos_p1 cfg rid tok)) \<Longrightarrow>
   m \<in> set (sent (sendHelpOptions_p1 rid)) \<or> (\<exists>l. m = linear_message rid l)"
  by (auto simp: respondToHelpRequestWithLinearPhotos_p1_def split: sum.splits
        dest: linear_switch_p1_returns)

lemma prompt_no_attachment:
  "m \<in> set (sent (sendHelpOptions_p1 rid)) \<Longrightarrow> message_attachment (message m) = None"
  by (auto simp: sendHelpOptions_p1_def quick_reply_prompt_def empty_message_def)

text \<open>
  In part_002 the restart sentinel and every token that is not a step label end in the
  \<open>ReferenceError\<close>: nothing is sent.
\<close>

lemma linear_p2_fallback_throws:
  "tok \<notin> set linear_steps_p2 \<Longrightarrow>
   respondToHelpRequestWithLinearPhotos_p2 cfg rid tok =
     Inl (ReferenceError ''sendHelpOptions is not defined'')"
  by (simp add: linear_steps_p2_def respondToHelpRequestWithLinearPhotos_p2_def
        linear_switch_p2_def Let_def)

text \<open>The (topic, step) pairs strictly between a topic's intro and its terminal step.\<close>

lemma intermediate_steps:
  assumes "2 \<le> i" and "i < terminal_step t"
  shows "(t, i) \<in> {(Rotation, 2), (Photo, 2), (Photo, 3), (Caption, 2), (Caption, 3), (Caption, 4),
                    (Background, 2), (Background, 3), (Background, 4), (Background, 5)}"
  using assms by (cases t) auto

text \<open>\<open>split('=')\<close> on a header of the form \<open>method=digest\<close>.\<close>

lemma split_on_no_separator: "c \<notin> set s \<Longrightarrow> split_on c s = [s]"
  by (induction s) auto

lemma split_on_first_separator: "c \<notin> set m \<Longrightarrow> split_on c (m @ c # d) = m # split_on c d"
  by (induction m) auto

lemma header_digest:
  "CHR ''='' \<notin> set method \<Longrightarrow> CHR ''='' \<notin> set digest \<Longrightarrow>
   element_at (split_on (CHR ''='') (method @ CHR ''='' # digest)) 1 = Some digest"
  by (simp add: split_on_first_separator split_on_no_separator element_at_def)

text \<open>The case labels of part_002's linear responder are the tokens \<open>step_token t n\<close>.\<close>

lemma linear_steps_p2_tokens:
  "linear_steps_p2 = concat (map (\<lambda>t. map (step_token t) [1 ..< Suc (terminal_step t)]) all_topics)"
  by (simp add: linear_steps_p2_def all_topics_def token_defs upt_rec)

section \<open>Branching mode properties\<close>

text \<open>
  C1 (as amended). For each of the four topics, the branching responder answers the
  topic's token with one generic-template carousel of between two and five cards, and
  all cards carry the same row of postback buttons, which never names the topic shown.
  In part_002 and part_000 (tokens \<open>QR_<TOPIC>_1\<close>) the row names exactly the other
  three topics, in menu order. In part_001 (tokens \<open>QR_..._A\<close>) the row has two buttons,
  for two different topics among the other three.
\<close>

theorem C1_carousel_button_rows:
  "(\<exists>cards.
      respondToHelpRequestWithTemplates cfg rid (topic_token t) =
        [ConsoleLog ''[respondToHelpRequestWithTemplates] handling help request for %s'',
         CallSendAPI (generic_template rid cards)]
      \<and> 2 \<le> length cards \<and> length cards \<le> 5
      \<and> map buttons cards =
            replicate (length cards)
              (map (\<lambda>u. postback (topic_title u) (topic_token u))
                 (filter (\<lambda>u. u \<noteq> t) all_topics)))
   \<and> topic_token t \<notin> set (map topic_token (filter (\<lambda>u. u \<noteq> t) all_topics))
   \<and> (\<exists>cards row.
      respondToHelpRequestWithTemplates_p1 cfg rid (topic_token_p1 t) =
        [CallSendAPI (generic_template rid cards)]
      \<and> 2 \<le> length cards \<and> length cards \<le> 5
      \<and> map buttons cards = replicate (length cards) row
      \<and> length row = 2
      \<and> distinct (map button_payload row)
      \<and> set (map button_payload row)
            \<subseteq> set (map topic_token_p1 (filter (\<lambda>u. u \<noteq> t) all_topics))
      \<and> topic_token_p1 t \<notin> set (map button_payload row))"
proof (intro conjI)
  show "\<exists>cards.
      respondToHelpRequestWithTemplates cfg rid (topic_token t) =
        [ConsoleLog ''[respondToHelpRequestWithTemplates] handling help request for %s'',
         CallSendAPI (generic_template rid cards)]
      \<and> 2 \<le> length cards \<and> length cards \<le> 5
      \<and> map buttons cards =
            replicate (length cards)
              (map (\<lambda>u. postback (topic_title u) (topic_token u))
                 (filter (\<lambda>u. u \<noteq> t) all_topics))"
    by (cases t)
       (simp_all add: templates_defs token_defs all_topics_def postback_def empty_message_def)
  show "topic_token t \<notin> set (map topic_token (filter (\<lambda>u. u \<noteq> t) all_topics))"
    by (cases t) (simp_all add: token_defs all_topics_def)
  show "\<exists>cards row.
      respondToHelpRequestWithTemplates_p1 cfg rid (topic_token_p1 t) =
        [CallSendAPI (generic_template rid cards)]
      \<and> 2 \<le> length cards \<and> length cards \<le> 5
      \<and> map buttons cards = replicate (length cards) row
      \<and> length row = 2
      \<and> distinct (map button_payload row)
      \<and> set (map button_payload row)
            \<subseteq> set (map topic_token_p1 (filter (\<lambda>u. u \<noteq> t) all_topics))
      \<and> topic_token_p1 t \<notin> set (map button_payload row)"
    by (cases t) (simp_all add: templates_p1_defs all_topics_def empty_message_def)
qed

text \<open>
  C1 as stated fails in part_001: for \<open>QR_ROTATION_A\<close> both cards carry two buttons,
  Background Color and Photo; the Caption topic (\<open>QR_POSTER_TEXT_A\<close>) is not offered.
\<close>

theorem C1_two_buttons_counterexample:
  "button_rows (respondToHelpRequestWithTemplates_p1 example_config ''7'' ''QR_ROTATION_A'') =
     [[postback ''Background Color'' ''QR_BACKGROUND_COLOR_A'', postback ''Photo'' ''QR_PHOTO_A''],
      [postback ''Background Color'' ''QR_BACKGROUND_COLOR_A'', postback ''Photo'' ''QR_PHOTO_A'']]"
  by (simp add: templates_p1_defs button_rows_def postback_def empty_message_def)

text \<open>
  C2 (as amended). The linear responder of part_001 answers every token that is not one
  of its step labels with exactly one message, the top-level prompt
  "Select a feature to learn more." with its four choices, and nothing else. In Branching
  mode a token that is not one of the four topic tokens is not answered with the prompt:
  the responder reports that a template needs at least two elements, and no message it
  sends carries quick replies (part_001 sends nothing at all). The statement is silent
  about the linear responder of part_002, whose fallback never gets as far as a prompt
  (lemma \<open>linear_p2_fallback_throws\<close>).
\<close>

theorem C2_unmapped_token:
  "(tok \<notin> set linear_steps_p1 \<longrightarrow>
      respondToHelpRequestWithLinearPhotos_p1 cfg rid tok = [CallSendAPI (top_level_prompt_p1 rid)])
   \<and> (tok \<notin> set (map topic_token_p1 all_topics) \<longrightarrow>
      respondToHelpRequestWithTemplates_p1 cfg rid tok = [ConsoleLog ''add at least two elements''])
   \<and> (tok \<notin> set (map topic_token all_topics) \<longrightarrow>
      ConsoleError ''each template should have at least two elements''
        \<in> set (respondToHelpRequestWithTemplates cfg rid tok)
      \<and> list_all (\<lambda>m. quick_replies (message m) = None)
           (sent (respondToHelpRequestWithTemplates cfg rid tok)))"
proof (intro conjI impI)
  assume "tok \<notin> set linear_steps_p1"
  then show "respondToHelpRequestWithLinearPhotos_p1 cfg rid tok =
      [CallSendAPI (top_level_prompt_p1 rid)]"
    by (simp add: linear_steps_p1_def respondToHelpRequestWithLinearPhotos_p1_def
          linear_switch_p1_def Let_def sendHelpOptions_p1_def top_level_prompt_p1_def)
next
  assume "tok \<notin> set (map topic_token_p1 all_topics)"
  then show "respondToHelpRequestWithTemplates_p1 cfg rid tok =
      [ConsoleLog ''add at least two elements'']"
    by (simp add: all_topics_def respondToHelpRequestWithTemplates_p1_def templates_switch_p1_def)
next
  assume unmapped: "tok \<notin> set (map topic_token all_topics)"
  then show "ConsoleError ''each template should have at least two elements''
      \<in> set (respondToHelpRequestWithTemplates cfg rid tok)"
    by (simp add: all_topics_def token_defs respondToHelpRequestWithTemplates_def
          templates_switch_def)
  from unmapped show "list_all (\<lambda>m. quick_replies (message m) = None)
      (sent (respondToHelpRequestWithTemplates cfg rid tok))"
    by (simp add: all_topics_def token_defs respondToHelpRequestWithTemplates_def
          templates_switch_def generic_template_def empty_message_def)
qed

theorem C2_unmapped_token_witness:
  "respondToHelpRequestWithLinearPhotos_p1 example_config ''7'' ''QR_UNKNOWN'' =
     [CallSendAPI (top_level_prompt_p1 ''7'')]
   \<and> respondToHelpRequestWithTemplates_p1 example_config ''7'' ''QR_UNKNOWN'' =
       [ConsoleLog ''add at least two elements'']
   \<and> ConsoleError ''each template should have at least two elements''
       \<in> set (respondToHelpRequestWithTemplates example_config ''7'' ''QR_UNKNOWN'')"
proof -
  have "''QR_UNKNOWN'' \<notin> set linear_steps_p1"
    and "''QR_UNKNOWN'' \<notin> set (map topic_token_p1 all_topics)"
    and "''QR_UNKNOWN'' \<notin> set (map topic_token all_topics)"
    by (simp_all add: linear_steps_p1_def all_topics_def token_defs)
  with C2_unmapped_token [where tok = "''QR_UNKNOWN''" and cfg = example_config and rid = "''7''"]
  show ?thesis by blast
qed

text \<open>
  C2 as stated fails in Branching mode: for the unmapped token \<open>QR_UNKNOWN\<close> the only
  message part_002 sends is a generic template without cards, which has neither a
  \<open>text\<close> nor \<open>quick_replies\<close>; the prompt is not sent.
\<close>

theorem C2_branching_no_prompt_counterexample:
  "sent (respondToHelpRequestWithTemplates example_config ''7'' ''QR_UNKNOWN'') =
     [\<lparr>recipient_id = ''7'',
       message =
         \<lparr>message_text = None, metadata = None, quick_replies = None,
          message_attachment =
            Some \<lparr>attachment_type = ''template'',
                  attachment_payload = PayloadTemplate ''generic'' []\<rparr>\<rparr>\<rparr>]"
  by (simp add: templates_defs empty_message_def)

text \<open>
  C3 (the code at the failing input). With a token that selects no topic, part_002 and
  part_000 write the error "each template should have at least two elements" and then
  still hand a generic template with no cards to the Send API. part_001 logs and returns
  without sending.
\<close>

theorem C3_degenerate_carousel_is_sent:
  "respondToHelpRequestWithTemplates cfg rid ''QR_UNKNOWN'' =
     [ConsoleLog ''[respondToHelpRequestWithTemplates] handling help request for %s'',
      ConsoleError ''each template should have at least two elements'',
      CallSendAPI (generic_template rid [])]
   \<and> respondToHelpRequestWithTemplates_p1 cfg rid ''QR_UNKNOWN'' =
       [ConsoleLog ''add at least two elements'']"
  by (simp add: templates_defs respondToHelpRequestWithTemplates_p1_def templates_switch_p1_def)

section \<open>Linear mode properties\<close>

text \<open>
  C4. For the terminal step token of every topic (QR_ROTATION_3, QR_PHOTO_4,
  QR_CAPTION_5, QR_BACKGROUND_6), the linear responder of part_002 sends one message: it
  carries the image of the topic's last carousel card as its attachment, no text, and a
  quick-reply set with exactly one choice, titled "Explore another feature", whose
  payload is the restart sentinel. The sentinel is the string \<open>QR_RESTART\<close>, the label
  of the responder's restart \<open>case\<close>; part_001, which declares the prompt helper, answers
  that payload with the top-level prompt.
\<close>

theorem C4_terminal_step:
  "respondToHelpRequestWithLinearPhotos_p2 cfg rid (step_token t (terminal_step t)) =
     Inr [CallSendAPI
        \<lparr>recipient_id = rid,
         message =
           \<lparr>message_text = None,
            metadata = None,
            quick_replies = Some [text_choice ''Explore another feature'' RESTART],
            message_attachment =
              Some \<lparr>attachment_type = ''image'',
                    attachment_payload =
                      PayloadUrl (image_url (last (snd (templates_switch cfg (topic_token t)))))\<rparr>\<rparr>\<rparr>]
   \<and> RESTART = ''QR_RESTART''
   \<and> respondToHelpRequestWithLinearPhotos_p1 cfg rid RESTART = [CallSendAPI (top_level_prompt_p1 rid)]"
  by (cases t)
     (simp_all add: linear_p2_defs linear_p1_defs token_defs carousel_defs prompt_defs)

text \<open>
  C5. For every step token strictly between a topic's intro (step 1) and its terminal
  step, the linear responder of part_002 sends one message: no text, the image of that
  step (the card of the topic's carousel at position step - 2) as attachment, and the
  two choices Restart and Continue, where Continue's payload is the token of the next
  step.
\<close>

theorem C5_intermediate_step:
  assumes "2 \<le> i" and "i < terminal_step t"
  shows "respondToHelpRequestWithLinearPhotos_p2 cfg rid (step_token t i) =
     Inr [CallSendAPI
        \<lparr>recipient_id = rid,
         message =
           \<lparr>message_text = None,
            metadata = None,
            quick_replies = Some [text_choice ''Restart'' RESTART,
                                  text_choice ''Continue'' (step_token t (i + 1))],
            message_attachment =
              Some \<lparr>attachment_type = ''image'',
                    attachment_payload =
                      PayloadUrl (image_url (snd (templates_switch cfg (topic_token t)) ! (i - 2)))\<rparr>\<rparr>\<rparr>]"
  using intermediate_steps [OF assms]
  by (elim insertE emptyE; simp add: linear_p2_defs token_defs carousel_defs)

text \<open>
  The instance the claim names: payload \<open>QR_PHOTO_2\<close> yields the first Photo image with
  the choices Restart and Continue to \<open>QR_PHOTO_3\<close>, and no text field.
\<close>

theorem C5_intermediate_step_witness:
  "(2::nat) \<le> 2 \<and> 2 < terminal_step Photo \<and>
   respondToHelpRequestWithLinearPhotos_p2 example_config ''7'' ''QR_PHOTO_2'' =
     Inr [CallSendAPI
        \<lparr>recipient_id = ''7'',
         message =
           \<lparr>message_text = None,
            metadata = None,
            quick_replies = Some [text_choice ''Restart'' ''QR_RESTART'',
                                  text_choice ''Continue'' ''QR_PHOTO_3''],
            message_attachment =
              Some \<lparr>attachment_type = ''image'',
                    attachment_payload =
                      PayloadUrl ''https://bot.example.com/assets/screenshots/03-photo-hover.png''\<rparr>\<rparr>\<rparr>]"
  using C5_intermediate_step [of 2 Photo example_config "''7''"]
  by (simp add: token_defs carousel_defs example_config_def IMG_BASE_PATH_def Let_def)

text \<open>
  C6. Every message sent by the linear responder, in part_001 and in part_002, that has
  an attachment has no \<open>text\<close> key at all.
\<close>

theorem C6_text_attachment_exclusive:
  assumes "m \<in> set (sent (respondToHelpRequestWithLinearPhotos_p1 cfg rid tok))
         \<or> m \<in> set (sent_result (respondToHelpRequestWithLinearPhotos_p2 cfg rid tok))"
    and "message_attachment (message m) \<noteq> None"
  shows "message_text (message m) = None"
proof -
  from assms(1) have "m \<in> set (sent (sendHelpOptions_p1 rid)) \<or> (\<exists>l. m = linear_message rid l)"
    by (blast dest: sent_linear_p1 sent_linear_p2)
  with assms(2) show ?thesis
    using prompt_no_attachment [of m rid] linear_message_exclusive by auto
qed

theorem C6_text_attachment_exclusive_witness:
  "message_text (message (hd (sent (respondToHelpRequestWithLinearPhotos_p1 example_config ''7''
      ''QR_PHOTO_B'')))) = None
   \<and> message_attachment (message (hd (sent (respondToHelpRequestWithLinearPhotos_p1 example_config
      ''7'' ''QR_PHOTO_B'')))) =
       Some \<lparr>attachment_type = ''image'',
             attachment_payload = PayloadUrl ''bot.example.com/assets/screenshots/03-photo-hover.png''\<rparr>"
proof -
  let ?m = "hd (sent (respondToHelpRequestWithLinearPhotos_p1 example_config ''7'' ''QR_PHOTO_B''))"
  have sent_one: "sent (respondToHelpRequestWithLinearPhotos_p1 example_config ''7'' ''QR_PHOTO_B'') =
      [linear_message ''7'' (middle_step (imgBasePath_p1 example_config @ ''03-photo-hover.png'')
         ''QR_PHOTO_C'' linear_init)]"
    by (simp add: respondToHelpRequestWithLinearPhotos_p1_def linear_switch_p1_def Let_def)
  have att: "message_attachment (message ?m) =
      Some \<lparr>attachment_type = ''image'',
            attachment_payload = PayloadUrl ''bot.example.com/assets/screenshots/03-photo-hover.png''\<rparr>"
    unfolding sent_one by (simp add: linear_defs imgBasePath_p1_def example_config_def)
  have "?m \<in> set (sent (respondToHelpRequestWithLinearPhotos_p1 example_config ''7'' ''QR_PHOTO_B''))"
    by (simp add: sent_one)
  then have "message_text (message ?m) = None"
    using C6_text_attachment_exclusive [of ?m example_config "''7''" "''QR_PHOTO_B''"] att by simp
  with att show ?thesis by simp
qed

section \<open>Request verification and the webhook handlers\<close>

text \<open>\<open>sent\<close> reads a trace piece by piece.\<close>

lemma sent_append: "sent (xs @ ys) = sent xs @ sent ys"
  by (induction xs rule: sent.induct) simp_all

text \<open>
  C7 (as amended). For a header of the form \<open>method=digest\<close> the verifier throws exactly
  when the digest differs from the HMAC of the raw body under the app secret, and then the
  route handler is not run. When the header is absent the verifier does not throw: it
  writes "Couldn't validate the signature." to the error log and returns, and the route
  handler runs on the body. The two outcomes differ (an exception with its own message
  against a logged line).
\<close>

theorem C7_signature_verifier:
  assumes "CHR ''='' \<notin> set method" and "CHR ''='' \<notin> set digest"
  shows "verifyRequestSignature hmac_sha1_hex cfg (Some (method @ CHR ''='' # digest)) buf =
           (if digest = hmac_sha1_hex (APP_SECRET cfg) buf then Inr []
            else Inl (Error ''Couldn't validate the request signature.''))
       \<and> post_request hmac_sha1_hex cfg handler (Some (method @ CHR ''='' # digest)) buf data =
           (if digest = hmac_sha1_hex (APP_SECRET cfg) buf then Inr (handler data)
            else Inl (Error ''Couldn't validate the request signature.''))
       \<and> verifyRequestSignature hmac_sha1_hex cfg None buf =
           Inr [ConsoleError ''Couldn't validate the signature.'']
       \<and> post_request hmac_sha1_hex cfg handler None buf data =
           Inr (ConsoleError ''Couldn't validate the signature.'' # handler data)"
  using header_digest [OF assms]
  by (auto simp add: verifyRequestSignature_def post_request_def Let_def)

theorem C7_signature_verifier_witness:
  "CHR ''='' \<notin> set ''sha1'' \<and> CHR ''='' \<notin> set ''00''
   \<and> verifyRequestSignature (\<lambda>secret body. ''0f'') example_config (Some ''sha1=00'') ''{}'' =
       Inl (Error ''Couldn't validate the request signature.'')
   \<and> post_request (\<lambda>secret body. ''0f'') example_config (post_webhook_p2 example_config)
         (Some ''sha1=00'') ''{}'' \<lparr>body_object = ''page'', entry = []\<rparr> =
       Inl (Error ''Couldn't validate the request signature.'')
   \<and> post_request (\<lambda>secret body. ''0f'') example_config (post_webhook_p2 example_config)
         None ''{}'' \<lparr>body_object = ''page'', entry = []\<rparr> =
       Inr [ConsoleError ''Couldn't validate the signature.'', SendStatus 200]"
  using C7_signature_verifier [of "''sha1''" "''00''" "\<lambda>secret body. ''0f''" example_config "''{}''"
      "post_webhook_p2 example_config" "\<lparr>body_object = ''page'', entry = []\<rparr>"]
  by (simp add: post_webhook_p2_def)

text \<open>
  C7 as stated fails for the absent header: the request is not rejected. A POST without
  \<open>x-hub-signature\<close> that carries one text message is classified and answered, and the
  webhook is acknowledged with 200.
\<close>

theorem C7_missing_header_counterexample:
  "post_request (\<lambda>secret body. ''0f'') example_config (post_webhook_p2 example_config) None ''{}''
      \<lparr>body_object = ''page'', entry = [\<lparr>messaging = [text_event ''7'' ''hi'']\<rparr>]\<rparr> =
    Inr [ConsoleError ''Couldn't validate the signature.'',
         ConsoleLog ''[app.post] Webhook received a messagingEvent with properties: '',
         ConsoleLog ''[receivedMessage] user (%d) page (%d) timestamp (%d) and message (%s)'',
         CallSendAPI
           \<lparr>recipient_id = ''7'',
            message = \<lparr>message_text = Some ''hi'', metadata = Some ''DEVELOPER_DEFINED_METADATA'',
                       quick_replies = None, message_attachment = None\<rparr>\<rparr>,
         SendStatus 200]"
  by (simp add: post_request_def verifyRequestSignature_def post_webhook_p2_def dispatch_p2_def
        receivedMessage_p2_def sendTextMessage_p2_def text_event_def empty_message_def)

text \<open>
  C8 (the code at the failing input). For a body whose \<open>object\<close> is \<open>"group"\<close> the
  handlers process no entry and send nothing, and they do not call \<open>res.sendStatus\<close>
  either: part_002 has no effect at all, node/app.js and part_000 only write their first
  log line. No response is given to the request.
\<close>

theorem C8_non_page_object_gets_no_response:
  "post_webhook_p2 cfg \<lparr>body_object = ''group'', entry = es\<rparr> = []
   \<and> post_webhook_app \<lparr>body_object = ''group'', entry = es\<rparr> = [ConsoleLog ''message received!'']
   \<and> post_webhook_p0 cfg \<lparr>body_object = ''group'', entry = es\<rparr> = [ConsoleLog ''message received!'']"
  by (simp add: post_webhook_p2_def post_webhook_app_def post_webhook_p0_def)

text \<open>
  C9 (as amended). In part_000, for every message event that has no \<open>quick_reply\<close> and
  whose text is "help" in any mix of upper and lower case, the handler sends exactly one
  message: the top-level prompt "Select a feature to learn more." with exactly four
  choices titled Rotation, Photo, Caption, Background, in that order. The same holds for
  the whole POST handler on a page body with that single event.
\<close>

theorem C9_help_prompt:
  assumes "received_quick_reply msg = None" and "received_text msg = Some t"
    and "toLowerCase t = ''help''"
  shows "sent (processMessageFromPage_p0 cfg sid msg) = [top_level_prompt_p0 sid]
       \<and> sent (post_webhook_p0 cfg
                 \<lparr>body_object = ''page'',
                  entry = [\<lparr>messaging = [\<lparr>sender_id = sid, event_message = Some msg,
                                          event_delivery = d, event_postback = p\<rparr>]\<rparr>]\<rparr>) =
           [top_level_prompt_p0 sid]
       \<and> top_level_prompt_p0 sid =
           \<lparr>recipient_id = sid,
            message =
              \<lparr>message_text = Some ''Select a feature to learn more.'',
               metadata = None,
               quick_replies =
                 Some [text_choice ''Rotation'' ''QR_ROTATION_1'', text_choice ''Photo'' ''QR_PHOTO_1'',
                       text_choice ''Caption'' ''QR_CAPTION_1'',
                       text_choice ''Background'' ''QR_BACKGROUND_1''],
               message_attachment = None\<rparr>\<rparr>"
proof -
  from assms(3) have "t \<noteq> []"
    by (auto simp: toLowerCase_def)
  with assms have handler: "sent (processMessageFromPage_p0 cfg sid msg) = [top_level_prompt_p0 sid]"
    by (simp add: processMessageFromPage_p0_def prompt_defs token_defs)
  then have "sent (post_webhook_p0 cfg
                 \<lparr>body_object = ''page'',
                  entry = [\<lparr>messaging = [\<lparr>sender_id = sid, event_message = Some msg,
                                          event_delivery = d, event_postback = p\<rparr>]\<rparr>]\<rparr>) =
           [top_level_prompt_p0 sid]"
    by (simp add: post_webhook_p0_def dispatch_p0_def sent_append)
  moreover have "top_level_prompt_p0 sid =
           \<lparr>recipient_id = sid,
            message =
              \<lparr>message_text = Some ''Select a feature to learn more.'',
               metadata = None,
               quick_replies =
                 Some [text_choice ''Rotation'' ''QR_ROTATION_1'', text_choice ''Photo'' ''QR_PHOTO_1'',
                       text_choice ''Caption'' ''QR_CAPTION_1'',
                       text_choice ''Background'' ''QR_BACKGROUND_1''],
               message_attachment = None\<rparr>\<rparr>"
    by (simp add: prompt_defs token_defs empty_message_def)
  ultimately show ?thesis
    using handler by simp
qed

theorem C9_help_prompt_witness:
  "toLowerCase ''HeLp'' = ''help''
   \<and> sent (processMessageFromPage_p0 example_config ''7''
             \<lparr>received_text = Some ''HeLp'', received_quick_reply = None\<rparr>) =
       [top_level_prompt_p0 ''7'']"
proof -
  have lower: "toLowerCase ''HeLp'' = ''help''"
    by (simp add: toLowerCase_def toLowerCase_char_def)
  with C9_help_prompt [of "\<lparr>received_text = Some ''HeLp'', received_quick_reply = None\<rparr>" "''HeLp''"
      example_config "''7''"]
  show ?thesis by simp
qed

text \<open>
  C9 as stated fails for a message that also carries a \<open>quick_reply\<close>: the handler
  returns after handling the quick reply and never looks at the text. With text "help"
  and quick-reply payload \<open>QR_PHOTO_1\<close> the only message sent is the Photo carousel, which
  has no quick replies.
\<close>

theorem C9_quick_reply_counterexample:
  "sent (processMessageFromPage_p0 example_config ''7''
           \<lparr>received_text = Some ''help'', received_quick_reply = Some ''QR_PHOTO_1''\<rparr>) =
     [generic_template ''7'' (snd (templates_switch example_config ''QR_PHOTO_1''))]
   \<and> quick_replies (message (generic_template ''7''
        (snd (templates_switch example_config ''QR_PHOTO_1'')))) = None
   \<and> length (snd (templates_switch example_config ''QR_PHOTO_1'')) = 3"
  by (simp add: processMessageFromPage_p0_def handleQuickReplyResponse_def
        respondToHelpRequestWithTemplates_def templates_switch_def Let_def generic_template_def
        empty_message_def)

text \<open>
  C10. For every message event with a non-empty text and no \<open>quick_reply\<close>, whose text
  is not the keyword "help" (in any case), the handler sends exactly one message, to the
  sender, whose text is the received text unchanged: in part_000, in node/app.js, and in
  part_002 (where the message also carries the fixed metadata string).
\<close>

theorem C10_echo:
  assumes "received_quick_reply msg = None" and "received_text msg = Some t" and "t \<noteq> []"
    and "toLowerCase t \<noteq> ''help''"
  shows "sent (processMessageFromPage_p0 cfg sid msg) =
           [\<lparr>recipient_id = sid,
             message = \<lparr>message_text = Some t, metadata = None, quick_replies = None,
                        message_attachment = None\<rparr>\<rparr>]
       \<and> sent (processMessageFromPage_app sid msg) =
           [\<lparr>recipient_id = sid,
             message = \<lparr>message_text = Some t, metadata = None, quick_replies = None,
                        message_attachment = None\<rparr>\<rparr>]
       \<and> sent (receivedMessage_p2 cfg sid msg) =
           [\<lparr>recipient_id = sid,
             message = \<lparr>message_text = Some t, metadata = Some ''DEVELOPER_DEFINED_METADATA'',
                        quick_replies = None, message_attachment = None\<rparr>\<rparr>]"
  using assms
  by (simp add: processMessageFromPage_p0_def processMessageFromPage_app_def receivedMessage_p2_def
        sendTextMessage_app_def sendTextMessage_p2_def empty_message_def)

theorem C10_echo_witness:
  "toLowerCase ''Hello bot'' \<noteq> ''help''
   \<and> sent (processMessageFromPage_p0 example_config ''7''
             \<lparr>received_text = Some ''Hello bot'', received_quick_reply = None\<rparr>) =
       [\<lparr>recipient_id = ''7'',
         message = \<lparr>message_text = Some ''Hello bot'', metadata = None, quick_replies = None,
                    message_attachment = None\<rparr>\<rparr>]"
proof -
  have not_keyword: "toLowerCase ''Hello bot'' \<noteq> ''help''"
    by (simp add: toLowerCase_def)
  with C10_echo [of "\<lparr>received_text = Some ''Hello bot'', received_quick_reply = None\<rparr>"
      "''Hello bot''" example_config "''7''"]
  show ?thesis by simp
qed

end
